theory Spec2Isabelle
  imports Main
begin

section \<open>The btrfs sysfs registry (fs/btrfs/sysfs.c)\<close>

text \<open>
  The file builds a small tree of reference-counted kobjects under the kset
  \<^verbatim>\<open>/sys/fs/btrfs\<close> and routes attribute reads and writes to per-attribute
  callbacks. Pointers are addresses (\<open>None\<close> is \<^verbatim>\<open>NULL\<close>); since \<^verbatim>\<open>kobj\<close> is the
  first member of \<^verbatim>\<open>struct btrfs_kobject\<close>, a btrfs_kobject and its kobject share
  one address. Undefined behaviour of the C code (a freed or wild pointer) is
  the value \<open>Inl\<close> of a fault.
\<close>

type_synonym addr = nat

datatype fault = Invalid_pointer | Refcount_underflow

text \<open>Errno values of the kernel headers (not part of this file).\<close>

definition EIO :: int where "EIO = 5"
definition ENOMEM :: int where "ENOMEM = 12"
definition EINVAL :: int where "EINVAL = 22"

subsection \<open>Attributes and the two default sysfs operations\<close>

text \<open>
  \<^verbatim>\<open>struct attribute\<close> (its declaration is in the kernel headers): a name and a
  permission mode.
\<close>

record attribute =
  name :: string
  mode :: nat

text \<open>
  \<^verbatim>\<open>struct btrfs_kobject_attr\<close>: the attribute and two optional callbacks. A
  callback receives the kobject's address, the attribute and the buffer, and
  may change the machine state \<open>'w\<close>; \<open>show\<close> returns the byte count (or a
  negative errno) and the buffer it filled, \<open>store\<close> also receives the length.
\<close>

record 'w btrfs_kobject_attr =
  attr :: attribute
  attr_show :: "(addr \<Rightarrow> attribute \<Rightarrow> string \<Rightarrow> 'w \<Rightarrow> int \<times> string \<times> 'w) option"
  attr_store :: "(addr \<Rightarrow> attribute \<Rightarrow> string \<Rightarrow> nat \<Rightarrow> 'w \<Rightarrow> int \<times> 'w) option"

definition btrfs_kobject_attr_store ::
  "addr \<Rightarrow> 'w btrfs_kobject_attr \<Rightarrow> string \<Rightarrow> nat \<Rightarrow> 'w \<Rightarrow> int \<times> 'w" where
  "btrfs_kobject_attr_store btrfs_kobj btrfs_attr buf len w =
     (case attr_store btrfs_attr of
        None \<Rightarrow> (- EIO, w)
      | Some store \<Rightarrow> store btrfs_kobj (attr btrfs_attr) buf len w)"

definition btrfs_kobject_attr_show ::
  "addr \<Rightarrow> 'w btrfs_kobject_attr \<Rightarrow> string \<Rightarrow> 'w \<Rightarrow> int \<times> string \<times> 'w" where
  "btrfs_kobject_attr_show btrfs_kobj btrfs_attr buf w =
     (case attr_show btrfs_attr of
        None \<Rightarrow> (- EIO, buf, w)
      | Some show \<Rightarrow> show btrfs_kobj (attr btrfs_attr) buf w)"

text \<open>
  \<^verbatim>\<open>BTRFS_ATTR(_name,_mode,_show,_store)\<close> expands to the initialiser
  \<^verbatim>\<open>__ATTR(_name,_mode,_show,_store)\<close>, which stores its four arguments;
  \<^verbatim>\<open>ATTR_LIST(name)\<close> is the address of the embedded attribute.
\<close>

definition BTRFS_ATTR ::
  "string \<Rightarrow> nat
     \<Rightarrow> (addr \<Rightarrow> attribute \<Rightarrow> string \<Rightarrow> 'w \<Rightarrow> int \<times> string \<times> 'w) option
     \<Rightarrow> (addr \<Rightarrow> attribute \<Rightarrow> string \<Rightarrow> nat \<Rightarrow> 'w \<Rightarrow> int \<times> 'w) option
     \<Rightarrow> 'w btrfs_kobject_attr" where
  "BTRFS_ATTR n m sh st =
     \<lparr>attr = \<lparr>name = n, mode = m\<rparr>, attr_show = sh, attr_store = st\<rparr>"

definition ATTR_LIST :: "'w btrfs_kobject_attr \<Rightarrow> attribute" where
  "ATTR_LIST a = attr a"

text \<open>The permission modes written in octal in the source: 0444 and 0666.\<close>

definition mode_0444 :: nat where "mode_0444 = 4 * 64 + 4 * 8 + 4"
definition mode_0666 :: nat where "mode_0666 = 6 * 64 + 6 * 8 + 6"

definition btrfs_attr_num_devices :: "'w btrfs_kobject_attr" where
  "btrfs_attr_num_devices = BTRFS_ATTR ''num_devices'' mode_0444 None None"

definition btrfs_attr_dummy :: "'w btrfs_kobject_attr" where
  "btrfs_attr_dummy = BTRFS_ATTR ''dummy'' mode_0444 None None"

definition btrfs_attr_dummy1 :: "'w btrfs_kobject_attr" where
  "btrfs_attr_dummy1 = BTRFS_ATTR ''dummy1'' mode_0444 None None"

definition btrfs_attr_label :: "'w btrfs_kobject_attr" where
  "btrfs_attr_label = BTRFS_ATTR ''label'' mode_0444 None None"

subsection \<open>Kobject types\<close>

text \<open>
  A \<^verbatim>\<open>struct kobj_type\<close> holds pointers to functions of this file. A function
  pointer is the name of the function it points to; \<open>call_release\<close> below calls it.
\<close>

datatype sysfs_ops_ptr = Btrfs_sysfs_ops

datatype release_ptr = Btrfs_kobject_release

record kobj_type =
  sysfs_ops :: sysfs_ops_ptr
  release :: "release_ptr option"
  default_attrs :: "attribute list"

definition btrfs_info_default_attrs :: "attribute list" where
  "btrfs_info_default_attrs = [ATTR_LIST (btrfs_attr_num_devices :: unit btrfs_kobject_attr)]"

definition btrfs_ktype_info :: kobj_type where
  "btrfs_ktype_info =
     \<lparr>sysfs_ops = Btrfs_sysfs_ops, release = Some Btrfs_kobject_release,
      default_attrs = btrfs_info_default_attrs\<rparr>"

definition btrfs_health_default_attrs :: "attribute list" where
  "btrfs_health_default_attrs = [ATTR_LIST (btrfs_attr_dummy :: unit btrfs_kobject_attr)]"

definition btrfs_ktype_health :: kobj_type where
  "btrfs_ktype_health =
     \<lparr>sysfs_ops = Btrfs_sysfs_ops, release = Some Btrfs_kobject_release,
      default_attrs = btrfs_health_default_attrs\<rparr>"

definition btrfs_devices_default_attrs :: "attribute list" where
  "btrfs_devices_default_attrs = [ATTR_LIST (btrfs_attr_dummy1 :: unit btrfs_kobject_attr)]"

definition btrfs_ktype_devices :: kobj_type where
  "btrfs_ktype_devices =
     \<lparr>sysfs_ops = Btrfs_sysfs_ops, release = Some Btrfs_kobject_release,
      default_attrs = btrfs_devices_default_attrs\<rparr>"

definition btrfs_device_default_attrs :: "attribute list" where
  "btrfs_device_default_attrs = [ATTR_LIST (btrfs_attr_label :: unit btrfs_kobject_attr)]"

definition btrfs_ktype_device :: kobj_type where
  "btrfs_ktype_device =
     \<lparr>sysfs_ops = Btrfs_sysfs_ops, release = Some Btrfs_kobject_release,
      default_attrs = btrfs_device_default_attrs\<rparr>"

text \<open>
  A pointer to a \<^verbatim>\<open>struct kobj_type\<close> is the address of one of the file's static
  objects (written with the object, which nothing changes), or the address of
  the by-value parameter \<^verbatim>\<open>ktype\<close> of a call of \<open>btrfs_kobject_create\<close>, named by
  the number of the call. The parameter lives while its call runs.
\<close>

datatype ktype_ptr = Static_ktype kobj_type | Param_ktype nat

subsection \<open>Kobjects, the kset and the machine state\<close>

text \<open>
  Modelled from the spec: \<^verbatim>\<open>struct kobject\<close> is declared in the kernel headers,
  not in this file. The fields are those of the spec's Node (name, reference
  count, type, parent link, child collection), the kset pointer that
  \<open>btrfs_kobject_create\<close> assigns (\<open>True\<close>: the kobject points to the btrfs kset)
  and the flag that the node is published.
\<close>

record kobject =
  kobj_name :: string
  kref :: nat
  ktype :: "ktype_ptr option"
  parent :: "addr option"
  children :: "addr list"
  kobj_kset :: bool
  state_in_sysfs :: bool

record btrfs_kobject =
  kobj :: kobject
  ptr :: "addr option"

text \<open>
  Modelled from the spec: \<^verbatim>\<open>struct kset\<close>, the Registry; \<open>kset_list\<close> is its
  collection of root nodes.
\<close>

record kset =
  kset_name :: string
  kset_list :: "addr list"

text \<open>
  The machine state: the memory holding btrfs_kobjects, the allocator (the
  next unused address and the number of blocks it can still hand out), the
  answer of the external renderer to a request to publish a directory of a
  given name (0 accepts), the file's four static pointers, the log of the
  calls of the release callback, in order, and the \<^verbatim>\<open>ktype\<close> parameters of the
  calls of \<open>btrfs_kobject_create\<close> that are running, with the number of the
  next call.
\<close>

record sysfs_state =
  mem :: "addr \<rightharpoonup> btrfs_kobject"
  brk :: addr
  avail :: nat
  sysfs_create_dir :: "string \<Rightarrow> int"
  btrfs_kset :: "kset option"
  btrfs_devices :: "addr option"
  btrfs_health :: "addr option"
  btrfs_info :: "addr option"
  released :: "addr list"
  frames :: "nat \<rightharpoonup> kobj_type"
  next_frame :: nat

text \<open>
  Reading through a pointer to a kobj_type: a static object is always there,
  a parameter only while its call runs. \<open>None\<close> is a dangling pointer.
\<close>

fun deref_ktype :: "ktype_ptr \<Rightarrow> sysfs_state \<Rightarrow> kobj_type option" where
  "deref_ktype (Static_ktype t) s = Some t"
| "deref_ktype (Param_ktype n) s = frames s n"

definition zeroed :: btrfs_kobject where
  "zeroed =
     \<lparr>kobj = \<lparr>kobj_name = [], kref = 0, ktype = None, parent = None, children = [],
              kobj_kset = False, state_in_sysfs = False\<rparr>,
      ptr = None\<rparr>"

text \<open>
  \<^verbatim>\<open>kzalloc\<close> returns \<^verbatim>\<open>NULL\<close> when no block is left, and otherwise a zeroed
  block at an address never handed out before; \<^verbatim>\<open>kfree\<close> gives the block back.
\<close>

definition kzalloc :: "sysfs_state \<Rightarrow> addr option \<times> sysfs_state" where
  "kzalloc s =
     (if avail s = 0 then (None, s)
      else (Some (brk s),
            s\<lparr>mem := (mem s)(brk s \<mapsto> zeroed), brk := Suc (brk s), avail := avail s - 1\<rparr>))"

definition kfree :: "addr \<Rightarrow> sysfs_state \<Rightarrow> sysfs_state" where
  "kfree a s = s\<lparr>mem := (mem s)(a := None), avail := Suc (avail s)\<rparr>"

definition upd_kobj :: "addr \<Rightarrow> (kobject \<Rightarrow> kobject) \<Rightarrow> sysfs_state \<Rightarrow> sysfs_state" where
  "upd_kobj a f s =
     (case mem s a of
        None \<Rightarrow> s
      | Some b \<Rightarrow> s\<lparr>mem := (mem s)(a \<mapsto> b\<lparr>kobj := f (kobj b)\<rparr>)\<rparr>)"

subsection \<open>The release callback\<close>

text \<open>
  \<open>btrfs_kobject_release\<close> frees the btrfs_kobject that contains the kobject. The
  model also appends the address to the log \<open>released\<close>, which nothing reads:
  it records that the callback ran.
\<close>

definition btrfs_kobject_release :: "addr \<Rightarrow> sysfs_state \<Rightarrow> sysfs_state" where
  "btrfs_kobject_release tmp_kobj s = kfree tmp_kobj (s\<lparr>released := released s @ [tmp_kobj]\<rparr>)"

fun call_release :: "release_ptr \<Rightarrow> addr \<Rightarrow> sysfs_state \<Rightarrow> sysfs_state" where
  "call_release Btrfs_kobject_release a s = btrfs_kobject_release a s"

subsection \<open>The kobject library\<close>

text \<open>
  Modelled from the spec: \<^verbatim>\<open>lib/kobject.c\<close> is not part of this file. Its
  functions follow the spec's description of the Node lifecycle; the two
  helpers below insert a node into, and remove it from, the kset's list (no
  parent) or its parent's children.
\<close>

definition kobj_link :: "addr \<Rightarrow> addr option \<Rightarrow> bool \<Rightarrow> sysfs_state \<Rightarrow> sysfs_state" where
  "kobj_link a par in_kset s =
     (case par of
        Some p \<Rightarrow> upd_kobj p (\<lambda>k. k\<lparr>children := children k @ [a]\<rparr>) s
      | None \<Rightarrow>
          (if in_kset
           then s\<lparr>btrfs_kset :=
                  map_option (\<lambda>ks. ks\<lparr>kset_list := kset_list ks @ [a]\<rparr>) (btrfs_kset s)\<rparr>
           else s))"

definition kobj_unlink :: "addr \<Rightarrow> addr option \<Rightarrow> sysfs_state \<Rightarrow> sysfs_state" where
  "kobj_unlink a par s =
     (case par of
        Some p \<Rightarrow> upd_kobj p (\<lambda>k. k\<lparr>children := removeAll a (children k)\<rparr>) s
      | None \<Rightarrow>
          s\<lparr>btrfs_kset :=
              map_option (\<lambda>ks. ks\<lparr>kset_list := removeAll a (kset_list ks)\<rparr>) (btrfs_kset s)\<rparr>)"

text \<open>
  Modelled from the spec: \<^verbatim>\<open>kobject_init_and_add\<close>. ``Constructs a Node with
  refcount = 1, parent = given. If parent is none, inserts into Registry.roots;
  otherwise inserts into parent.children. Publishes the node to the external
  renderer. On renderer publish failure: rolls back -- removes from
  roots/children.'' The renderer's answer is the return value; the reference
  taken at initialisation stays with the caller on failure too. The type is
  passed by address and the address is stored in the node; publishing reads
  the type's attribute list through it.
\<close>

definition kobject_init_and_add ::
  "addr \<Rightarrow> ktype_ptr \<Rightarrow> addr option \<Rightarrow> string \<Rightarrow> sysfs_state \<Rightarrow> fault + (int \<times> sysfs_state)" where
  "kobject_init_and_add a kt par nm s =
     (case mem s a of
        None \<Rightarrow> Inl Invalid_pointer
      | Some b \<Rightarrow>
          (if (case par of None \<Rightarrow> False | Some p \<Rightarrow> mem s p = None) then Inl Invalid_pointer
           else if deref_ktype kt s = None then Inl Invalid_pointer
           else
             (let s1 = upd_kobj a (\<lambda>k. k\<lparr>kobj_name := nm, kref := 1, ktype := Some kt,
                                         parent := par, state_in_sysfs := False\<rparr>) s;
                  s2 = kobj_link a par (kobj_kset (kobj b)) s1;
                  ret = sysfs_create_dir s nm
              in if ret = 0 then Inr (0, upd_kobj a (\<lambda>k. k\<lparr>state_in_sysfs := True\<rparr>) s2)
                 else Inr (ret, upd_kobj a (\<lambda>k. k\<lparr>parent := None\<rparr>) (kobj_unlink a par s2)))))"

text \<open>
  Modelled from the spec: \<^verbatim>\<open>kobject_get\<close>, the acquisition of one more handle
  (``incremented on each additional handle acquired''). A \<^verbatim>\<open>NULL\<close> pointer is
  ignored.
\<close>

fun kobject_get :: "addr option \<Rightarrow> sysfs_state \<Rightarrow> fault + sysfs_state" where
  "kobject_get None s = Inr s"
| "kobject_get (Some a) s =
     (case mem s a of
        None \<Rightarrow> Inl Invalid_pointer
      | Some b \<Rightarrow> Inr (upd_kobj a (\<lambda>k. k\<lparr>kref := Suc (kref k)\<rparr>) s))"

primrec detach_children :: "addr list \<Rightarrow> sysfs_state \<Rightarrow> sysfs_state" where
  "detach_children [] s = s"
| "detach_children (c # cs) s = detach_children cs (upd_kobj c (\<lambda>k. k\<lparr>parent := None\<rparr>) s)"

text \<open>
  Modelled from the spec: what \<^verbatim>\<open>kobject_put\<close> does when the count reaches zero.
  ``Unpublishes from the external renderer, removes from parent's children
  (or roots), invokes NodeType.release(node) exactly once''; ``children lose
  their parent link (become detached) but are not transitively destroyed''.
  \<open>b\<close> is the object as it was when the last reference was dropped and \<open>t\<close>
  the type read through the node's type pointer (\<open>None\<close> for a node without a
  type).
\<close>

definition kobject_cleanup ::
  "addr \<Rightarrow> btrfs_kobject \<Rightarrow> kobj_type option \<Rightarrow> sysfs_state \<Rightarrow> sysfs_state" where
  "kobject_cleanup a b t s =
     (let s1 = upd_kobj a (\<lambda>k. k\<lparr>kref := 0, state_in_sysfs := False\<rparr>) s;
          s2 = kobj_unlink a (parent (kobj b)) s1;
          s3 = detach_children (children (kobj b)) s2
      in case t of
           None \<Rightarrow> s3
         | Some ty \<Rightarrow> (case release ty of None \<Rightarrow> s3 | Some f \<Rightarrow> call_release f a s3))"

text \<open>
  Modelled from the spec: \<^verbatim>\<open>kobject_put\<close>. ``Decrements refcount by one. If
  refcount is nonzero, the Node remains live''; a drop on a destroyed node is
  invalid and ``refcount underflow is an error''. A \<^verbatim>\<open>NULL\<close> pointer is ignored.
  The release callback is found through the node's type pointer; when that
  pointer dangles the read is a fault.
\<close>

fun kobject_put :: "addr option \<Rightarrow> sysfs_state \<Rightarrow> fault + sysfs_state" where
  "kobject_put None s = Inr s"
| "kobject_put (Some a) s =
     (case mem s a of
        None \<Rightarrow> Inl Invalid_pointer
      | Some b \<Rightarrow>
          (if kref (kobj b) = 0 then Inl Refcount_underflow
           else if kref (kobj b) = 1
           then (case ktype (kobj b) of
                   None \<Rightarrow> Inr (kobject_cleanup a b None s)
                 | Some kt \<Rightarrow>
                     (case deref_ktype kt s of
                        None \<Rightarrow> Inl Invalid_pointer
                      | Some t \<Rightarrow> Inr (kobject_cleanup a b (Some t) s)))
           else Inr (upd_kobj a (\<lambda>k. k\<lparr>kref := kref k - 1\<rparr>) s)))"

text \<open>
  Modelled from the spec: \<^verbatim>\<open>kset_create_and_add\<close> and \<^verbatim>\<open>kset_unregister\<close>, the
  registration of the Registry itself with the renderer; it fails when the
  renderer refuses the name.
\<close>

definition kset_create_and_add :: "string \<Rightarrow> sysfs_state \<Rightarrow> kset option" where
  "kset_create_and_add nm s =
     (if sysfs_create_dir s nm = 0 then Some \<lparr>kset_name = nm, kset_list = []\<rparr> else None)"

definition kset_unregister :: "sysfs_state \<Rightarrow> sysfs_state" where
  "kset_unregister s = s\<lparr>btrfs_kset := None\<rparr>"

subsection \<open>Creating and destroying btrfs kobjects\<close>

text \<open>
  \<open>btrfs_kobject_create\<close> receives the \<^verbatim>\<open>struct kobj_type\<close> by value and passes
  the address of that parameter to \<open>kobject_init_and_add\<close>, which stores it in
  the node. The parameter is created when the call starts and is gone when
  the call returns (\<open>leave_frame\<close>), on every path; the node of a successful
  call keeps the address. The \<^verbatim>\<open>printk\<close> has no effect on the state.
\<close>

definition leave_frame :: "nat \<Rightarrow> sysfs_state \<Rightarrow> sysfs_state" where
  "leave_frame fid s = s\<lparr>frames := (frames s)(fid := None)\<rparr>"

definition btrfs_kobject_create ::
  "string \<Rightarrow> kobj_type \<Rightarrow> addr option \<Rightarrow> sysfs_state \<Rightarrow> fault + (addr option \<times> sysfs_state)" where
  "btrfs_kobject_create nm kt btrfs_parent s =
     (let fid = next_frame s;
          s0 = s\<lparr>frames := (frames s)(fid \<mapsto> kt), next_frame := Suc fid\<rparr>
      in case kzalloc s0 of
        (None, s1) \<Rightarrow> Inr (None, leave_frame fid s1)
      | (Some btrfs_kobj, s1) \<Rightarrow>
          (let s2 = (case btrfs_parent of
                       Some p \<Rightarrow> s1
                     | None \<Rightarrow> upd_kobj btrfs_kobj
                                 (\<lambda>k. k\<lparr>kobj_kset := (btrfs_kset s1 \<noteq> None)\<rparr>) s1)
           in case kobject_init_and_add btrfs_kobj (Param_ktype fid) btrfs_parent nm s2 of
                Inl f \<Rightarrow> Inl f
              | Inr (ret, s3) \<Rightarrow>
                  (if ret \<noteq> 0
                   then (case kobject_put (Some btrfs_kobj) s3 of
                           Inl f \<Rightarrow> Inl f
                         | Inr s4 \<Rightarrow> Inr (None, leave_frame fid s4))
                   else Inr (Some btrfs_kobj, leave_frame fid s3))))"

definition btrfs_kobject_destroy :: "addr option \<Rightarrow> sysfs_state \<Rightarrow> fault + sysfs_state" where
  "btrfs_kobject_destroy btrfs_kobj s = kobject_put btrfs_kobj s"

subsection \<open>Initialisation\<close>

text \<open>The three error labels of \<open>btrfs_static_init_sysfs\<close>; each falls through to the next.\<close>

definition btrfs_devices_error :: "sysfs_state \<Rightarrow> fault + (int \<times> sysfs_state)" where
  "btrfs_devices_error s = Inr (- EINVAL, s)"

definition btrfs_health_error :: "sysfs_state \<Rightarrow> fault + (int \<times> sysfs_state)" where
  "btrfs_health_error s =
     (case btrfs_kobject_destroy (btrfs_health s) s of
        Inl f \<Rightarrow> Inl f
      | Inr s' \<Rightarrow> btrfs_devices_error s')"

definition btrfs_info_error :: "sysfs_state \<Rightarrow> fault + (int \<times> sysfs_state)" where
  "btrfs_info_error s =
     (case btrfs_kobject_destroy (btrfs_info s) s of
        Inl f \<Rightarrow> Inl f
      | Inr s' \<Rightarrow> btrfs_health_error s')"

definition btrfs_static_init_sysfs :: "sysfs_state \<Rightarrow> fault + (int \<times> sysfs_state)" where
  "btrfs_static_init_sysfs s =
     (case btrfs_kobject_create ''devices'' btrfs_ktype_devices None s of
        Inl f \<Rightarrow> Inl f
      | Inr (d, s1) \<Rightarrow>
          (let s1 = s1\<lparr>btrfs_devices := d\<rparr> in
           if d = None then btrfs_devices_error s1
           else
             (case btrfs_kobject_create ''health'' btrfs_ktype_health None s1 of
                Inl f \<Rightarrow> Inl f
              | Inr (h, s2) \<Rightarrow>
                  (let s2 = s2\<lparr>btrfs_health := h\<rparr> in
                   if h = None then btrfs_health_error s2
                   else
                     (case btrfs_kobject_create ''info'' btrfs_ktype_info None s2 of
                        Inl f \<Rightarrow> Inl f
                      | Inr (i, s3) \<Rightarrow>
                          (let s3 = s3\<lparr>btrfs_info := i\<rparr> in
                           if i = None then btrfs_info_error s3
                           else Inr (0, s3)))))))"

definition btrfs_init_sysfs :: "sysfs_state \<Rightarrow> fault + (int \<times> sysfs_state)" where
  "btrfs_init_sysfs s =
     (let s1 = s\<lparr>btrfs_kset := kset_create_and_add ''btrfs'' s\<rparr> in
      if btrfs_kset s1 = None then Inr (- ENOMEM, s1)
      else btrfs_static_init_sysfs s1)"

subsection \<open>Devices\<close>

definition btrfs_create_device ::
  "addr option \<Rightarrow> string \<Rightarrow> sysfs_state \<Rightarrow> fault + (int \<times> sysfs_state)" where
  "btrfs_create_device super_kobj label s =
     (case super_kobj of
        None \<Rightarrow> Inl Invalid_pointer
      | Some k \<Rightarrow>
          (case kobject_init_and_add k (Static_ktype btrfs_ktype_device)
                  (btrfs_devices s) label s of
             Inl f \<Rightarrow> Inl f
           | Inr (ret, s') \<Rightarrow> Inr (0, s')))"

definition btrfs_kill_device :: "addr option \<Rightarrow> sysfs_state \<Rightarrow> fault + (int \<times> sysfs_state)" where
  "btrfs_kill_device k s =
     (case kobject_put k s of Inl f \<Rightarrow> Inl f | Inr s' \<Rightarrow> Inr (0, s'))"

definition btrfs_exit_sysfs :: "sysfs_state \<Rightarrow> fault + sysfs_state" where
  "btrfs_exit_sysfs s =
     (case btrfs_kobject_destroy (btrfs_devices s) s of
        Inl f \<Rightarrow> Inl f
      | Inr s1 \<Rightarrow>
          (case btrfs_kobject_destroy (btrfs_health s1) s1 of
             Inl f \<Rightarrow> Inl f
           | Inr s2 \<Rightarrow>
               (case btrfs_kobject_destroy (btrfs_info s2) s2 of
                  Inl f \<Rightarrow> Inl f
                | Inr s3 \<Rightarrow> Inr (kset_unregister s3))))"

text \<open>
  The state at module load: empty memory, \<open>n\<close> blocks for the allocator, the
  renderer \<open>r\<close>, every static pointer \<^verbatim>\<open>NULL\<close>, nothing released yet, no call
  running.
\<close>

definition boot_state :: "nat \<Rightarrow> (string \<Rightarrow> int) \<Rightarrow> sysfs_state" where
  "boot_state n r =
     \<lparr>mem = Map.empty, brk = 1, avail = n, sysfs_create_dir = r, btrfs_kset = None,
      btrfs_devices = None, btrfs_health = None, btrfs_info = None, released = [],
      frames = Map.empty, next_frame = 0\<rparr>"

subsection \<open>Observing callbacks and handle sequences\<close>

text \<open>
  To count the callbacks a dispatch invokes, a descriptor is wrapped: each of
  its callbacks behaves as before on the machine state and increments a
  counter paired with it. The dispatch functions themselves are unchanged.
\<close>

definition counted_show ::
  "(addr \<Rightarrow> attribute \<Rightarrow> string \<Rightarrow> 'w \<Rightarrow> int \<times> string \<times> 'w)
     \<Rightarrow> addr \<Rightarrow> attribute \<Rightarrow> string \<Rightarrow> nat \<times> 'w \<Rightarrow> int \<times> string \<times> nat \<times> 'w" where
  "counted_show f k a buf nw =
     (case f k a buf (snd nw) of (r, buf', w') \<Rightarrow> (r, buf', Suc (fst nw), w'))"

definition counted_store ::
  "(addr \<Rightarrow> attribute \<Rightarrow> string \<Rightarrow> nat \<Rightarrow> 'w \<Rightarrow> int \<times> 'w)
     \<Rightarrow> addr \<Rightarrow> attribute \<Rightarrow> string \<Rightarrow> nat \<Rightarrow> nat \<times> 'w \<Rightarrow> int \<times> nat \<times> 'w" where
  "counted_store g k a buf len nw =
     (case g k a buf len (snd nw) of (r, w') \<Rightarrow> (r, Suc (fst nw), w'))"

definition counted :: "'w btrfs_kobject_attr \<Rightarrow> (nat \<times> 'w) btrfs_kobject_attr" where
  "counted a =
     \<lparr>attr = attr a, attr_show = map_option counted_show (attr_show a),
      attr_store = map_option counted_store (attr_store a)\<rparr>"

text \<open>
  A sequence of handle operations on one node: acquiring one more reference,
  or dropping one through \<open>btrfs_kobject_destroy\<close>. The run stops at the first
  fault.
\<close>

datatype kop = Acquire | Drop

fun apply_kop :: "addr \<Rightarrow> kop \<Rightarrow> sysfs_state \<Rightarrow> fault + sysfs_state" where
  "apply_kop a Acquire s = kobject_get (Some a) s"
| "apply_kop a Drop s = btrfs_kobject_destroy (Some a) s"

fun run_kops :: "addr \<Rightarrow> kop list \<Rightarrow> sysfs_state \<Rightarrow> fault + sysfs_state" where
  "run_kops a [] s = Inr s"
| "run_kops a (x # xs) s =
     (case apply_kop a x s of Inl f \<Rightarrow> Inl f | Inr s' \<Rightarrow> run_kops a xs s')"

section \<open>The dispatcher\<close>

text \<open>
  C3, as the code has it. A read of an attribute without \<open>show\<close> and a write of
  an attribute without \<open>store\<close> both fail with the one code \<open>-EIO\<close>; the buffer
  and the machine state (every node and payload) are returned unchanged.
\<close>

theorem C3_absent_callback:
  "(attr_show a = None \<longrightarrow> btrfs_kobject_attr_show k a buf w = (- EIO, buf, w)) \<and>
   (attr_store a = None \<longrightarrow> btrfs_kobject_attr_store k a buf len w = (- EIO, w))"
  by (simp add: btrfs_kobject_attr_show_def btrfs_kobject_attr_store_def)

theorem C3_absent_callback_witness:
  "attr_show (btrfs_attr_label :: unit btrfs_kobject_attr) = None \<and>
   attr_store (btrfs_attr_label :: unit btrfs_kobject_attr) = None \<and>
   btrfs_kobject_attr_show 2 btrfs_attr_label ''abc'' () = (- 5, ''abc'', ()) \<and>
   btrfs_kobject_attr_store 2 btrfs_attr_label ''abc'' 3 () = (- 5, ())"
  using C3_absent_callback [where a = "btrfs_attr_label :: unit btrfs_kobject_attr" and k = 2
      and buf = "''abc''" and w = "()" and len = 3]
  by (simp add: btrfs_attr_label_def BTRFS_ATTR_def EIO_def)

text \<open>
  C3 as stated asks for two distinct errors. On the attribute \<open>num_devices\<close> of
  the source, which has neither callback, the read and the write return the
  same value.
\<close>

theorem C3_counterexample:
  "\<not> (fst (btrfs_kobject_attr_show 1 (btrfs_attr_num_devices :: unit btrfs_kobject_attr) [] ())
        \<noteq> fst (btrfs_kobject_attr_store 1
               (btrfs_attr_num_devices :: unit btrfs_kobject_attr) [] 0 ()))"
  by (simp add: btrfs_kobject_attr_show_def btrfs_kobject_attr_store_def
      btrfs_attr_num_devices_def BTRFS_ATTR_def)

text \<open>
  C6. A dispatch on a descriptor with counted callbacks, started with the
  counter at 0, ends with the counter at 0 when the requested callback is
  absent and at 1 when it is present, and in that case its result, buffer and
  state are those of the one call of the callback, whatever the callback
  returned (a negative value included: there is no second call).
\<close>

theorem C6_single_callback:
  "btrfs_kobject_attr_show k (counted a) buf (0, w) =
     (case attr_show a of
        None \<Rightarrow> (- EIO, buf, 0, w)
      | Some f \<Rightarrow> (fst (f k (attr a) buf w), fst (snd (f k (attr a) buf w)), 1,
                   snd (snd (f k (attr a) buf w)))) \<and>
   btrfs_kobject_attr_store k (counted a) buf len (0, w) =
     (case attr_store a of
        None \<Rightarrow> (- EIO, 0, w)
      | Some g \<Rightarrow> (fst (g k (attr a) buf len w), 1, snd (g k (attr a) buf len w))) \<and>
   fst (snd (snd (btrfs_kobject_attr_show k (counted a) buf (0, w)))) \<le> 1 \<and>
   fst (snd (btrfs_kobject_attr_store k (counted a) buf len (0, w))) \<le> 1"
  by (simp add: btrfs_kobject_attr_show_def btrfs_kobject_attr_store_def counted_def
      counted_show_def counted_store_def split: option.splits prod.splits)

theorem C6_single_callback_witness:
  "btrfs_kobject_attr_show 1
     (counted (BTRFS_ATTR ''x'' mode_0666
        (Some (\<lambda>k a buf w. (if w then - EINVAL else 2, ''0'' @ [CHR 0x0A], w)))
        (Some (\<lambda>k a buf len w. (- EINVAL, w))))) ''7'' (0, True)
     = (- 22, ''0'' @ [CHR 0x0A], 1, True) \<and>
   btrfs_kobject_attr_store 1
     (counted (BTRFS_ATTR ''x'' mode_0666
        (Some (\<lambda>k a buf w. (if w then - EINVAL else 2, ''0'' @ [CHR 0x0A], w)))
        (Some (\<lambda>k a buf len w. (- EINVAL, w))))) ''7'' 1 (0, True)
     = (- 22, 1, True)"
  using C6_single_callback [where k = 1 and a = "BTRFS_ATTR ''x'' mode_0666
        (Some (\<lambda>k a buf w. (if w then - EINVAL else 2, ''0'' @ [CHR 0x0A], w)))
        (Some (\<lambda>k a buf len w. (- EINVAL, w)))" and buf = "''7''" and w = True and len = 1]
  by (simp add: BTRFS_ATTR_def EINVAL_def)

section \<open>The kobject layer\<close>

subsection \<open>Effects of the primitives, field by field\<close>

lemma upd_kobj_fields [simp]:
  "brk (upd_kobj a f s) = brk s"
  "avail (upd_kobj a f s) = avail s"
  "sysfs_create_dir (upd_kobj a f s) = sysfs_create_dir s"
  "btrfs_kset (upd_kobj a f s) = btrfs_kset s"
  "btrfs_devices (upd_kobj a f s) = btrfs_devices s"
  "btrfs_health (upd_kobj a f s) = btrfs_health s"
  "btrfs_info (upd_kobj a f s) = btrfs_info s"
  "released (upd_kobj a f s) = released s"
  "frames (upd_kobj a f s) = frames s"
  "next_frame (upd_kobj a f s) = next_frame s"
  by (simp_all add: upd_kobj_def split: option.splits)

lemma mem_upd_kobj [simp]:
  "mem (upd_kobj a f s) x =
     (if x = a then map_option (\<lambda>b. b\<lparr>kobj := f (kobj b)\<rparr>) (mem s a) else mem s x)"
  by (simp add: upd_kobj_def split: option.splits)

lemma kobj_link_fields [simp]:
  "brk (kobj_link a par k s) = brk s"
  "avail (kobj_link a par k s) = avail s"
  "sysfs_create_dir (kobj_link a par k s) = sysfs_create_dir s"
  "btrfs_devices (kobj_link a par k s) = btrfs_devices s"
  "btrfs_health (kobj_link a par k s) = btrfs_health s"
  "btrfs_info (kobj_link a par k s) = btrfs_info s"
  "released (kobj_link a par k s) = released s"
  "frames (kobj_link a par k s) = frames s"
  "next_frame (kobj_link a par k s) = next_frame s"
  by (simp_all add: kobj_link_def split: option.splits)

lemma kobj_link_None [simp]:
  "mem (kobj_link a None k s) = mem s"
  "btrfs_kset (kobj_link a None k s) =
     (if k then map_option (\<lambda>ks. ks\<lparr>kset_list := kset_list ks @ [a]\<rparr>) (btrfs_kset s)
      else btrfs_kset s)"
  by (simp_all add: kobj_link_def)

lemma kobj_link_Some [simp]:
  "mem (kobj_link a (Some p) k s) x =
     (if x = p then map_option (\<lambda>b. b\<lparr>kobj := (kobj b)\<lparr>children := children (kobj b) @ [a]\<rparr>\<rparr>) (mem s p)
      else mem s x)"
  "btrfs_kset (kobj_link a (Some p) k s) = btrfs_kset s"
  by (simp_all add: kobj_link_def)

lemma kobj_unlink_fields [simp]:
  "brk (kobj_unlink a par s) = brk s"
  "avail (kobj_unlink a par s) = avail s"
  "sysfs_create_dir (kobj_unlink a par s) = sysfs_create_dir s"
  "btrfs_devices (kobj_unlink a par s) = btrfs_devices s"
  "btrfs_health (kobj_unlink a par s) = btrfs_health s"
  "btrfs_info (kobj_unlink a par s) = btrfs_info s"
  "released (kobj_unlink a par s) = released s"
  "frames (kobj_unlink a par s) = frames s"
  "next_frame (kobj_unlink a par s) = next_frame s"
  by (simp_all add: kobj_unlink_def split: option.splits)

lemma kobj_unlink_None [simp]:
  "mem (kobj_unlink a None s) = mem s"
  "btrfs_kset (kobj_unlink a None s) =
     map_option (\<lambda>ks. ks\<lparr>kset_list := removeAll a (kset_list ks)\<rparr>) (btrfs_kset s)"
  by (simp_all add: kobj_unlink_def)

lemma kobj_unlink_Some [simp]:
  "mem (kobj_unlink a (Some p) s) x =
     (if x = p
      then map_option (\<lambda>b. b\<lparr>kobj := (kobj b)\<lparr>children := removeAll a (children (kobj b))\<rparr>\<rparr>) (mem s p)
      else mem s x)"
  "btrfs_kset (kobj_unlink a (Some p) s) = btrfs_kset s"
  by (simp_all add: kobj_unlink_def)

lemma detach_children_fields [simp]:
  "brk (detach_children cs s) = brk s"
  "avail (detach_children cs s) = avail s"
  "sysfs_create_dir (detach_children cs s) = sysfs_create_dir s"
  "btrfs_kset (detach_children cs s) = btrfs_kset s"
  "btrfs_devices (detach_children cs s) = btrfs_devices s"
  "btrfs_health (detach_children cs s) = btrfs_health s"
  "btrfs_info (detach_children cs s) = btrfs_info s"
  "released (detach_children cs s) = released s"
  "frames (detach_children cs s) = frames s"
  "next_frame (detach_children cs s) = next_frame s"
  by (induction cs arbitrary: s; simp)+


lemma kfree_fields [simp]:
  "brk (kfree a s) = brk s"
  "avail (kfree a s) = Suc (avail s)"
  "sysfs_create_dir (kfree a s) = sysfs_create_dir s"
  "btrfs_kset (kfree a s) = btrfs_kset s"
  "btrfs_devices (kfree a s) = btrfs_devices s"
  "btrfs_health (kfree a s) = btrfs_health s"
  "btrfs_info (kfree a s) = btrfs_info s"
  "released (kfree a s) = released s"
  "frames (kfree a s) = frames s"
  "next_frame (kfree a s) = next_frame s"
  "mem (kfree a s) x = (if x = a then None else mem s x)"
  by (simp_all add: kfree_def)

lemma btrfs_kobject_release_fields [simp]:
  "brk (btrfs_kobject_release a s) = brk s"
  "avail (btrfs_kobject_release a s) = Suc (avail s)"
  "sysfs_create_dir (btrfs_kobject_release a s) = sysfs_create_dir s"
  "btrfs_kset (btrfs_kobject_release a s) = btrfs_kset s"
  "btrfs_devices (btrfs_kobject_release a s) = btrfs_devices s"
  "btrfs_health (btrfs_kobject_release a s) = btrfs_health s"
  "btrfs_info (btrfs_kobject_release a s) = btrfs_info s"
  "released (btrfs_kobject_release a s) = released s @ [a]"
  "frames (btrfs_kobject_release a s) = frames s"
  "next_frame (btrfs_kobject_release a s) = next_frame s"
  "mem (btrfs_kobject_release a s) x = (if x = a then None else mem s x)"
  by (simp_all add: btrfs_kobject_release_def)

lemma call_release_eq [simp]: "call_release f a s = btrfs_kobject_release a s"
  by (cases f) simp

text \<open>The state once the last reference to \<open>a\<close> is gone.\<close>

lemma kobject_cleanup_fields:
  "brk (kobject_cleanup a b t s) = brk s"
  "sysfs_create_dir (kobject_cleanup a b t s) = sysfs_create_dir s"
  "btrfs_devices (kobject_cleanup a b t s) = btrfs_devices s"
  "btrfs_health (kobject_cleanup a b t s) = btrfs_health s"
  "btrfs_info (kobject_cleanup a b t s) = btrfs_info s"
  "frames (kobject_cleanup a b t s) = frames s"
  "next_frame (kobject_cleanup a b t s) = next_frame s"
  "(btrfs_kset (kobject_cleanup a b t s) = None) = (btrfs_kset s = None)"
  by (cases "parent (kobj b)";
      simp add: kobject_cleanup_def Let_def split: option.splits)+

lemma kobject_cleanup_kset:
  "btrfs_kset (kobject_cleanup a b t s) =
     (case parent (kobj b) of
        None \<Rightarrow> map_option (\<lambda>ks. ks\<lparr>kset_list := removeAll a (kset_list ks)\<rparr>) (btrfs_kset s)
      | Some p \<Rightarrow> btrfs_kset s)"
  by (cases "parent (kobj b)";
      simp add: kobject_cleanup_def Let_def split: option.splits)

lemma kobject_cleanup_kset_name:
  "map_option kset_name (btrfs_kset (kobject_cleanup a b t s)) =
   map_option kset_name (btrfs_kset s)"
  by (cases "parent (kobj b)"; cases "btrfs_kset s") (simp_all add: kobject_cleanup_kset)


lemma kobject_cleanup_freed:
  "release ty = Some f \<Longrightarrow> mem (kobject_cleanup a b (Some ty) s) a = None"
  by (simp add: kobject_cleanup_def Let_def)


subsection \<open>Initialising and publishing a kobject\<close>

lemma kiaa_fault:
  "(\<exists>f. kobject_init_and_add a kt par nm s = Inl f) \<longleftrightarrow>
     mem s a = None \<or> (\<exists>p. par = Some p \<and> mem s p = None) \<or> deref_ktype kt s = None"
  by (auto simp: kobject_init_and_add_def Let_def split: option.splits)

lemma kiaa_fields:
  assumes "kobject_init_and_add a kt par nm s = Inr (ret, s')"
  shows "ret = sysfs_create_dir s nm"
    and "brk s' = brk s"
    and "avail s' = avail s"
    and "sysfs_create_dir s' = sysfs_create_dir s"
    and "btrfs_devices s' = btrfs_devices s"
    and "btrfs_health s' = btrfs_health s"
    and "btrfs_info s' = btrfs_info s"
    and "released s' = released s"
    and "frames s' = frames s"
    and "next_frame s' = next_frame s"
  using assms
  by (auto simp: kobject_init_and_add_def Let_def split: option.splits if_splits)

lemma kiaa_self:
  assumes "kobject_init_and_add a kt par nm s = Inr (ret, s')"
  shows "\<exists>b'. mem s' a = Some b' \<and> kref (kobj b') = 1 \<and> ktype (kobj b') = Some kt \<and>
     kobj_name (kobj b') = nm \<and> parent (kobj b') = (if ret = 0 then par else None) \<and>
     state_in_sysfs (kobj b') = (ret = 0) \<and>
     (\<forall>b. mem s a = Some b \<longrightarrow> ptr b' = ptr b \<and>
        (par \<noteq> Some a \<longrightarrow> children (kobj b') = children (kobj b)))"
  using assms
  by (cases par)
    (auto simp: kobject_init_and_add_def Let_def split: option.splits if_splits)

subsection \<open>Creation\<close>

lemmas create_defs = btrfs_kobject_create_def kzalloc_def kobject_init_and_add_def upd_kobj_def
  kobj_link_def kobj_unlink_def kobject_cleanup_def btrfs_kobject_release_def kfree_def Let_def
  zeroed_def leave_frame_def

text \<open>
  The outcomes of a creation. In each the parameter of the call is gone at
  the end, and a node that was created holds its address.
\<close>

lemma create_root_nomem:
  "avail s = 0 \<Longrightarrow>
   btrfs_kobject_create nm kt par s =
     Inr (None, s\<lparr>frames := (frames s)(next_frame s := None), next_frame := Suc (next_frame s)\<rparr>)"
  by (simp add: btrfs_kobject_create_def kzalloc_def leave_frame_def Let_def)

lemma create_root_published:
  assumes "0 < avail s" and "sysfs_create_dir s nm = 0"
  shows "\<exists>s'. btrfs_kobject_create nm kt None s = Inr (Some (brk s), s') \<and>
     brk s' = Suc (brk s) \<and> avail s' = avail s - 1 \<and>
     sysfs_create_dir s' = sysfs_create_dir s \<and>
     btrfs_devices s' = btrfs_devices s \<and> btrfs_health s' = btrfs_health s \<and>
     btrfs_info s' = btrfs_info s \<and> released s' = released s \<and>
     frames s' = (frames s)(next_frame s := None) \<and> next_frame s' = Suc (next_frame s) \<and>
     btrfs_kset s' = map_option (\<lambda>ks. ks\<lparr>kset_list := kset_list ks @ [brk s]\<rparr>) (btrfs_kset s) \<and>
     mem s' = (mem s)(brk s \<mapsto>
       \<lparr>kobj = \<lparr>kobj_name = nm, kref = 1, ktype = Some (Param_ktype (next_frame s)),
                parent = None, children = [],
                kobj_kset = (btrfs_kset s \<noteq> None), state_in_sysfs = True\<rparr>,
        ptr = None\<rparr>)"
  using assms by (cases "btrfs_kset s") (simp_all add: create_defs)

lemma create_root_refused:
  assumes "0 < avail s" and "sysfs_create_dir s nm \<noteq> 0" and "release kt = Some f"
  shows "\<exists>s'. btrfs_kobject_create nm kt None s = Inr (None, s') \<and>
     brk s' = Suc (brk s) \<and> avail s' = avail s \<and>
     sysfs_create_dir s' = sysfs_create_dir s \<and>
     btrfs_devices s' = btrfs_devices s \<and> btrfs_health s' = btrfs_health s \<and>
     btrfs_info s' = btrfs_info s \<and> released s' = released s @ [brk s] \<and>
     frames s' = (frames s)(next_frame s := None) \<and> next_frame s' = Suc (next_frame s) \<and>
     btrfs_kset s' =
       map_option (\<lambda>ks. ks\<lparr>kset_list := removeAll (brk s) (kset_list ks)\<rparr>) (btrfs_kset s) \<and>
     mem s' = (mem s)(brk s := None)"
  using assms by (cases "btrfs_kset s"; cases f) (simp_all add: create_defs)

lemma create_child_refused:
  assumes "0 < avail s" and "sysfs_create_dir s nm \<noteq> 0" and "release kt = Some f"
    and "mem s p = Some pb" and "p \<noteq> brk s"
  shows "\<exists>s'. btrfs_kobject_create nm kt (Some p) s = Inr (None, s') \<and>
     released s' = released s @ [brk s] \<and>
     btrfs_kset s' =
       map_option (\<lambda>ks. ks\<lparr>kset_list := removeAll (brk s) (kset_list ks)\<rparr>) (btrfs_kset s) \<and>
     mem s' = (mem s)(brk s := None,
       p \<mapsto> pb\<lparr>kobj := (kobj pb)\<lparr>children := removeAll (brk s) (children (kobj pb))\<rparr>\<rparr>)"
  using assms by (cases f) (simp add: create_defs fun_upd_twist)

lemma create_self_refused:
  assumes "0 < avail s" and "sysfs_create_dir s nm \<noteq> 0" and "release kt = Some f"
  shows "\<exists>s'. btrfs_kobject_create nm kt (Some (brk s)) s = Inr (None, s') \<and>
     released s' = released s @ [brk s] \<and> mem s' (brk s) = None"
  using assms by (cases f) (simp add: create_defs)

subsection \<open>The bootstrap\<close>

lemma ktype_releases:
  "release btrfs_ktype_devices = Some Btrfs_kobject_release"
  "release btrfs_ktype_health = Some Btrfs_kobject_release"
  "release btrfs_ktype_info = Some Btrfs_kobject_release"
  "release btrfs_ktype_device = Some Btrfs_kobject_release"
  by (simp_all add: btrfs_ktype_devices_def btrfs_ktype_health_def btrfs_ktype_info_def
      btrfs_ktype_device_def)

text \<open>A creation of a root node that fails, for want of a block or by the renderer's refusal.\<close>

lemma create_root_failed:
  assumes "release kt = Some f" and "avail s = 0 \<or> sysfs_create_dir s nm \<noteq> 0"
  shows "\<exists>s'. btrfs_kobject_create nm kt None s = Inr (None, s') \<and>
     brk s' \<le> Suc (brk s) \<and>
     sysfs_create_dir s' = sysfs_create_dir s \<and>
     btrfs_devices s' = btrfs_devices s \<and> btrfs_health s' = btrfs_health s \<and>
     btrfs_info s' = btrfs_info s \<and>
     (released s' = released s \<or> released s' = released s @ [brk s]) \<and>
     frames s' = (frames s)(next_frame s := None) \<and> next_frame s' = Suc (next_frame s) \<and>
     (btrfs_kset s' = btrfs_kset s \<or>
      btrfs_kset s' =
        map_option (\<lambda>ks. ks\<lparr>kset_list := removeAll (brk s) (kset_list ks)\<rparr>) (btrfs_kset s)) \<and>
     (\<forall>x. x \<noteq> brk s \<longrightarrow> mem s' x = mem s x)"
proof (cases "avail s = 0")
  case True
  then show ?thesis by (simp add: create_root_nomem)
next
  case False
  with assms(2) have "0 < avail s" "sysfs_create_dir s nm \<noteq> 0" by auto
  from create_root_refused [OF this assms(1)] show ?thesis by auto
qed

text \<open>
  The four outcomes of the bootstrap, by the root that fails. The allocator
  and the renderer decide which. When \<open>info\<close> fails, the unwinding drops the last
  reference to \<open>health\<close>, whose type pointer is the address of a parameter of a
  call that has returned.
\<close>

lemma static_init_outcome:
  "if avail s = 0 \<or> sysfs_create_dir s ''devices'' \<noteq> 0
   then \<exists>s'. btrfs_static_init_sysfs s = Inr (- EINVAL, s') \<and>
          map_option kset_name (btrfs_kset s') = map_option kset_name (btrfs_kset s) \<and>
          btrfs_devices s' = None \<and> btrfs_health s' = btrfs_health s \<and>
          btrfs_info s' = btrfs_info s \<and> brk s' \<le> Suc (brk s)
   else if avail s = 1 \<or> sysfs_create_dir s ''health'' \<noteq> 0
   then \<exists>s' b. btrfs_static_init_sysfs s = Inr (- EINVAL, s') \<and>
          map_option kset_name (btrfs_kset s') = map_option kset_name (btrfs_kset s) \<and>
          btrfs_devices s' = Some (brk s) \<and> btrfs_health s' = None \<and>
          btrfs_info s' = btrfs_info s \<and> brk s' \<le> brk s + 2 \<and>
          mem s' (brk s) = Some b \<and> kref (kobj b) = 1 \<and> state_in_sysfs (kobj b) \<and>
          count_list (released s') (brk s) = count_list (released s) (brk s) \<and>
          (\<forall>ks. btrfs_kset s' = Some ks \<longrightarrow> brk s \<in> set (kset_list ks))
   else if avail s = 2 \<or> sysfs_create_dir s ''info'' \<noteq> 0
   then btrfs_static_init_sysfs s = Inl Invalid_pointer
   else \<exists>s'. btrfs_static_init_sysfs s = Inr (0, s') \<and>
          map_option kset_name (btrfs_kset s') = map_option kset_name (btrfs_kset s) \<and>
          btrfs_devices s' = Some (brk s) \<and> btrfs_health s' = Some (brk s + 1) \<and>
          btrfs_info s' = Some (brk s + 2) \<and> brk s' = brk s + 3"
proof (cases "avail s = 0 \<or> sysfs_create_dir s ''devices'' \<noteq> 0")
  case True
  from create_root_failed [OF ktype_releases(1) True]
  obtain s1 where "btrfs_kobject_create ''devices'' btrfs_ktype_devices None s = Inr (None, s1)"
    and "brk s1 \<le> Suc (brk s)"
    and "btrfs_health s1 = btrfs_health s" "btrfs_info s1 = btrfs_info s"
    and "btrfs_kset s1 = btrfs_kset s \<or>
      btrfs_kset s1 =
        map_option (\<lambda>ks. ks\<lparr>kset_list := removeAll (brk s) (kset_list ks)\<rparr>) (btrfs_kset s)"
    by blast
  with True show ?thesis
    by (cases "btrfs_kset s")
      (auto simp: btrfs_static_init_sysfs_def btrfs_devices_error_def)
next
  case dev: False
  then have av1: "0 < avail s" and ok1: "sysfs_create_dir s ''devices'' = 0" by auto
  from create_root_published [OF av1 ok1, of btrfs_ktype_devices]
  obtain s1 where c1: "btrfs_kobject_create ''devices'' btrfs_ktype_devices None s =
      Inr (Some (brk s), s1)"
    and s1: "brk s1 = Suc (brk s)" "avail s1 = avail s - 1"
      "sysfs_create_dir s1 = sysfs_create_dir s"
      "btrfs_health s1 = btrfs_health s" "btrfs_info s1 = btrfs_info s"
      "released s1 = released s"
      "frames s1 = (frames s)(next_frame s := None)" "next_frame s1 = Suc (next_frame s)"
      "btrfs_kset s1 =
        map_option (\<lambda>ks. ks\<lparr>kset_list := kset_list ks @ [brk s]\<rparr>) (btrfs_kset s)"
      "mem s1 = (mem s)(brk s \<mapsto>
       \<lparr>kobj = \<lparr>kobj_name = ''devices'', kref = 1, ktype = Some (Param_ktype (next_frame s)),
                parent = None, children = [],
                kobj_kset = (btrfs_kset s \<noteq> None), state_in_sysfs = True\<rparr>,
        ptr = None\<rparr>)"
    by blast
  define t1 where "t1 = s1\<lparr>btrfs_devices := Some (brk s)\<rparr>"
  have init1: "btrfs_static_init_sysfs s =
     (case btrfs_kobject_create ''health'' btrfs_ktype_health None t1 of
        Inl f \<Rightarrow> Inl f
      | Inr (h, s2) \<Rightarrow>
          (let s2 = s2\<lparr>btrfs_health := h\<rparr> in
           if h = None then btrfs_health_error s2
           else
             (case btrfs_kobject_create ''info'' btrfs_ktype_info None s2 of
                Inl f \<Rightarrow> Inl f
              | Inr (i, s3) \<Rightarrow>
                  (let s3 = s3\<lparr>btrfs_info := i\<rparr> in
                   if i = None then btrfs_info_error s3
                   else Inr (0, s3)))))"
    by (simp add: btrfs_static_init_sysfs_def c1 t1_def Let_def)
  have t1: "brk t1 = Suc (brk s)" "avail t1 = avail s - 1"
    "sysfs_create_dir t1 = sysfs_create_dir s" "btrfs_devices t1 = Some (brk s)"
    "btrfs_health t1 = btrfs_health s" "btrfs_info t1 = btrfs_info s"
    "released t1 = released s"
    "frames t1 = (frames s)(next_frame s := None)" "next_frame t1 = Suc (next_frame s)"
    "btrfs_kset t1 =
        map_option (\<lambda>ks. ks\<lparr>kset_list := kset_list ks @ [brk s]\<rparr>) (btrfs_kset s)"
    "mem t1 = (mem s)(brk s \<mapsto>
       \<lparr>kobj = \<lparr>kobj_name = ''devices'', kref = 1, ktype = Some (Param_ktype (next_frame s)),
                parent = None, children = [],
                kobj_kset = (btrfs_kset s \<noteq> None), state_in_sysfs = True\<rparr>,
        ptr = None\<rparr>)"
    by (simp_all add: t1_def s1)
  show ?thesis
  proof (cases "avail s = 1 \<or> sysfs_create_dir s ''health'' \<noteq> 0")
    case True
    with av1 have "avail t1 = 0 \<or> sysfs_create_dir t1 ''health'' \<noteq> 0"
      by (auto simp: t1)
    from create_root_failed [OF ktype_releases(2) this]
    obtain s2 where c2: "btrfs_kobject_create ''health'' btrfs_ktype_health None t1 =
        Inr (None, s2)"
      and s2: "brk s2 \<le> Suc (brk t1)" "btrfs_devices s2 = btrfs_devices t1"
        "btrfs_info s2 = btrfs_info t1"
        "released s2 = released t1 \<or> released s2 = released t1 @ [brk t1]"
        "btrfs_kset s2 = btrfs_kset t1 \<or>
         btrfs_kset s2 =
           map_option (\<lambda>ks. ks\<lparr>kset_list := removeAll (brk t1) (kset_list ks)\<rparr>) (btrfs_kset t1)"
        "\<forall>x. x \<noteq> brk t1 \<longrightarrow> mem s2 x = mem t1 x"
      by blast
    have "btrfs_static_init_sysfs s = Inr (- EINVAL, s2\<lparr>btrfs_health := None\<rparr>)"
      by (simp add: init1 c2 btrfs_health_error_def btrfs_devices_error_def
          btrfs_kobject_destroy_def)
    moreover have "mem s2 (brk s) = mem t1 (brk s)"
      using s2(6) by (simp add: t1)
    moreover have "count_list (released s2) (brk s) = count_list (released s) (brk s)"
      using s2(4) by (auto simp: t1)
    moreover have "map_option kset_name (btrfs_kset s2) = map_option kset_name (btrfs_kset s)"
      using s2(5) by (cases "btrfs_kset s") (auto simp: t1)
    moreover have "\<forall>ks. btrfs_kset s2 = Some ks \<longrightarrow> brk s \<in> set (kset_list ks)"
      using s2(5) by (cases "btrfs_kset s") (auto simp: t1)
    ultimately show ?thesis
      using dev True s2(1,2,3) by (simp add: t1)
  next
    case hea: False
    with av1 have av2: "0 < avail t1" and ok2: "sysfs_create_dir t1 ''health'' = 0"
      by (auto simp: t1)
    from create_root_published [OF av2 ok2, of btrfs_ktype_health]
    obtain s2 where c2: "btrfs_kobject_create ''health'' btrfs_ktype_health None t1 =
        Inr (Some (brk t1), s2)"
      and s2: "brk s2 = Suc (brk t1)" "avail s2 = avail t1 - 1"
        "sysfs_create_dir s2 = sysfs_create_dir t1"
        "btrfs_devices s2 = btrfs_devices t1" "btrfs_info s2 = btrfs_info t1"
        "frames s2 = (frames t1)(next_frame t1 := None)" "next_frame s2 = Suc (next_frame t1)"
        "btrfs_kset s2 =
          map_option (\<lambda>ks. ks\<lparr>kset_list := kset_list ks @ [brk t1]\<rparr>) (btrfs_kset t1)"
        "mem s2 = (mem t1)(brk t1 \<mapsto>
         \<lparr>kobj = \<lparr>kobj_name = ''health'', kref = 1, ktype = Some (Param_ktype (next_frame t1)),
                  parent = None, children = [],
                  kobj_kset = (btrfs_kset t1 \<noteq> None), state_in_sysfs = True\<rparr>,
          ptr = None\<rparr>)"
      by blast
    define t2 where "t2 = s2\<lparr>btrfs_health := Some (brk t1)\<rparr>"
    have init2: "btrfs_static_init_sysfs s =
       (case btrfs_kobject_create ''info'' btrfs_ktype_info None t2 of
          Inl f \<Rightarrow> Inl f
        | Inr (i, s3) \<Rightarrow>
            (let s3 = s3\<lparr>btrfs_info := i\<rparr> in
             if i = None then btrfs_info_error s3
             else Inr (0, s3)))"
      by (simp add: init1 c2 t2_def Let_def)
    have t2: "brk t2 = brk s + 2" "avail t2 = avail s - 2"
      "sysfs_create_dir t2 = sysfs_create_dir s" "btrfs_devices t2 = Some (brk s)"
      "btrfs_health t2 = Some (Suc (brk s))"
      "frames t2 (Suc (next_frame s)) = None" "next_frame t2 = next_frame s + 2"
      "map_option kset_name (btrfs_kset t2) = map_option kset_name (btrfs_kset s)"
      "mem t2 (Suc (brk s)) = Some
         \<lparr>kobj = \<lparr>kobj_name = ''health'', kref = 1,
                  ktype = Some (Param_ktype (Suc (next_frame s))),
                  parent = None, children = [],
                  kobj_kset = (btrfs_kset t1 \<noteq> None), state_in_sysfs = True\<rparr>,
          ptr = None\<rparr>"
      by (cases "btrfs_kset s"; simp add: t2_def s2 t1)+
    show ?thesis
    proof (cases "avail s = 2 \<or> sysfs_create_dir s ''info'' \<noteq> 0")
      case True
      with av1 hea have "avail t2 = 0 \<or> sysfs_create_dir t2 ''info'' \<noteq> 0"
        by (auto simp: t2)
      from create_root_failed [OF ktype_releases(3) this]
      obtain s3 where c3: "btrfs_kobject_create ''info'' btrfs_ktype_info None t2 =
          Inr (None, s3)"
        and s3: "btrfs_health s3 = btrfs_health t2"
          "frames s3 = (frames t2)(next_frame t2 := None)"
          "\<forall>x. x \<noteq> brk t2 \<longrightarrow> mem s3 x = mem t2 x"
        by blast
      define t3 where "t3 = s3\<lparr>btrfs_info := None\<rparr>"
      have "mem t3 (Suc (brk s)) = mem t2 (Suc (brk s))"
        using s3(3) by (simp add: t3_def t2)
      moreover have "frames t3 (Suc (next_frame s)) = None"
        by (simp add: t3_def s3 t2)
      ultimately have put: "kobject_put (Some (Suc (brk s))) t3 = Inl Invalid_pointer"
        by (simp add: t2)
      have ptr: "btrfs_health t3 = Some (Suc (brk s))" "btrfs_info t3 = None"
        by (simp_all add: t3_def s3 t2)
      have "btrfs_health_error t3 = Inl Invalid_pointer"
        by (simp add: btrfs_health_error_def btrfs_kobject_destroy_def ptr put
            del: kobject_put.simps)
      then have "btrfs_info_error t3 = Inl Invalid_pointer"
        by (simp add: btrfs_info_error_def btrfs_kobject_destroy_def ptr)
      moreover have "btrfs_static_init_sysfs s = btrfs_info_error t3"
        by (simp add: init2 c3 t3_def)
      ultimately have "btrfs_static_init_sysfs s = Inl Invalid_pointer"
        by simp
      with dev hea True show ?thesis by simp
    next
      case False
      with av1 hea have av3: "0 < avail t2" and ok3: "sysfs_create_dir t2 ''info'' = 0"
        by (auto simp: t2)
      from create_root_published [OF av3 ok3, of btrfs_ktype_info]
      obtain s3 where c3: "btrfs_kobject_create ''info'' btrfs_ktype_info None t2 =
          Inr (Some (brk t2), s3)"
        and s3: "brk s3 = Suc (brk t2)" "btrfs_devices s3 = btrfs_devices t2"
          "btrfs_health s3 = btrfs_health t2"
          "btrfs_kset s3 =
            map_option (\<lambda>ks. ks\<lparr>kset_list := kset_list ks @ [brk t2]\<rparr>) (btrfs_kset t2)"
        by blast
      have "btrfs_static_init_sysfs s = Inr (0, s3\<lparr>btrfs_info := Some (brk t2)\<rparr>)"
        by (simp add: init2 c3)
      moreover have "map_option kset_name (btrfs_kset s3) = map_option kset_name (btrfs_kset s)"
        using t2(8) by (cases "btrfs_kset t2") (auto simp: s3)
      ultimately show ?thesis
        using dev hea False by (simp add: s3 t2)
    qed
  qed
qed

section \<open>Creation\<close>

text \<open>
  C7. A successful \<open>btrfs_kobject_create\<close> returns the address of a new node with
  reference count 1, the zeroed payload (the function takes no payload from its
  caller), the given name and parent, published, its type pointer the address
  of the call's parameter; the node is appended to the list of the kset (when
  it exists) if there is no parent, and to the parent's children otherwise.
\<close>

theorem C7_create_success:
  "btrfs_kobject_create nm kt par s = Inr (Some a, s') \<Longrightarrow>
   a = brk s \<and>
   (\<exists>b. mem s' a = Some b \<and> kref (kobj b) = 1 \<and> ptr b = None \<and> kobj_name (kobj b) = nm \<and>
        ktype (kobj b) = Some (Param_ktype (next_frame s)) \<and> parent (kobj b) = par \<and> state_in_sysfs (kobj b)) \<and>
   (case par of
      None \<Rightarrow> btrfs_kset s' = map_option (\<lambda>ks. ks\<lparr>kset_list := kset_list ks @ [a]\<rparr>) (btrfs_kset s)
    | Some p \<Rightarrow> (\<exists>pb. mem s' p = Some pb \<and> a \<in> set (children (kobj pb))))"
  by (auto simp: create_defs split: if_splits option.splits sum.splits prod.splits)

theorem C7_create_success_witness:
  "btrfs_kobject_create ''devices'' btrfs_ktype_devices None
     ((boot_state 1 (\<lambda>n. 0))\<lparr>btrfs_kset := Some \<lparr>kset_name = ''btrfs'', kset_list = []\<rparr>\<rparr>) =
   Inr (Some 1,
     (boot_state 1 (\<lambda>n. 0))
       \<lparr>mem := [1 \<mapsto> \<lparr>kobj = \<lparr>kobj_name = ''devices'', kref = 1,
                                ktype = Some (Param_ktype 0), parent = None, children = [],
                                kobj_kset = True, state_in_sysfs = True\<rparr>,
                       ptr = None\<rparr>],
        brk := 2, avail := 0, next_frame := 1,
        btrfs_kset := Some \<lparr>kset_name = ''btrfs'', kset_list = [1]\<rparr>\<rparr>) \<and>
   1 \<in> set (kset_list \<lparr>kset_name = ''btrfs'', kset_list = [1]\<rparr>)"
proof -
  have run: "btrfs_kobject_create ''devices'' btrfs_ktype_devices None
     ((boot_state 1 (\<lambda>n. 0))\<lparr>btrfs_kset := Some \<lparr>kset_name = ''btrfs'', kset_list = []\<rparr>\<rparr>) =
   Inr (Some 1,
     (boot_state 1 (\<lambda>n. 0))
       \<lparr>mem := [1 \<mapsto> \<lparr>kobj = \<lparr>kobj_name = ''devices'', kref = 1,
                                ktype = Some (Param_ktype 0), parent = None, children = [],
                                kobj_kset = True, state_in_sysfs = True\<rparr>,
                       ptr = None\<rparr>],
        brk := 2, avail := 0, next_frame := 1,
        btrfs_kset := Some \<lparr>kset_name = ''btrfs'', kset_list = [1]\<rparr>\<rparr>)"
    by (simp add: create_defs boot_state_def)
  from C7_create_success [OF run] run show ?thesis by simp
qed

text \<open>
  C2, as the code has it. When the renderer refuses to publish (the block was
  allocated and the parent, if any, is valid), \<open>btrfs_kobject_create\<close> returns
  \<^verbatim>\<open>NULL\<close> and the node is in neither the kset's list nor the parent's children;
  the reference dropped by \<open>kobject_put\<close> on that path is the last one, so the
  release callback is called on the node, once, and frees it. The call is
  still running then, so the type is read through a live pointer.
\<close>

theorem C2_publish_failure:
  assumes "0 < avail s" and "sysfs_create_dir s nm \<noteq> 0"
    and "release kt = Some Btrfs_kobject_release"
    and "\<forall>p. par = Some p \<longrightarrow> mem s p \<noteq> None"
  shows "\<exists>s'. btrfs_kobject_create nm kt par s = Inr (None, s') \<and>
     released s' = released s @ [brk s] \<and>
     mem s' (brk s) = None \<and>
     (case par of
        None \<Rightarrow> (\<forall>ks. btrfs_kset s' = Some ks \<longrightarrow> brk s \<notin> set (kset_list ks))
      | Some p \<Rightarrow> (\<forall>pb. mem s' p = Some pb \<longrightarrow> brk s \<notin> set (children (kobj pb))))"
proof (cases par)
  case None
  from create_root_refused [OF assms(1-3), of ] None show ?thesis
    by (cases "btrfs_kset s") auto
next
  case (Some p)
  with assms(4) obtain pb where pb: "mem s p = Some pb" by auto
  show ?thesis
  proof (cases "p = brk s")
    case True
    from create_self_refused [OF assms(1-3)] Some True show ?thesis by auto
  next
    case False
    from create_child_refused [OF assms(1-3) pb False] Some False show ?thesis by auto
  qed
qed

theorem C2_publish_failure_witness:
  "0 < avail (boot_state 2 (\<lambda>n. if n = ''info'' then - 12 else 0)) \<and>
   sysfs_create_dir (boot_state 2 (\<lambda>n. if n = ''info'' then - 12 else 0)) ''info'' \<noteq> 0 \<and>
   release btrfs_ktype_info = Some Btrfs_kobject_release \<and>
   (\<exists>s'. btrfs_kobject_create ''info'' btrfs_ktype_info None
            (boot_state 2 (\<lambda>n. if n = ''info'' then - 12 else 0)) = Inr (None, s') \<and>
         released s' = [1] \<and> mem s' 1 = None)"
  using C2_publish_failure [of "boot_state 2 (\<lambda>n. if n = ''info'' then - 12 else 0)"
      "''info''" btrfs_ktype_info None]
  by (auto simp: boot_state_def btrfs_ktype_info_def)

text \<open>
  C2 as stated says that release is not called. With one block and a renderer
  that refuses \<open>health\<close>, the create returns \<^verbatim>\<open>NULL\<close> and the log of release
  calls holds the node's address.
\<close>

theorem C2_counterexample:
  "map_sum id (\<lambda>rs. (fst rs, released (snd rs)))
     (btrfs_kobject_create ''health'' btrfs_ktype_health None
        (boot_state 1 (\<lambda>n. if n = ''health'' then - 17 else 0))) = Inr (None, [1])"
  by (simp add: create_defs boot_state_def btrfs_ktype_health_def)

text \<open>
  C4, as the code has it. Nothing is validated when a type is declared:
  \<open>BTRFS_ATTR\<close> stores whatever name, mode and callbacks it is given, and
  \<open>btrfs_kobject_create\<close> creates and publishes a node for any type whenever a
  block is left and the renderer accepts the name. A writable attribute
  declared without \<open>store\<close> is only noticed at dispatch, where the write fails
  with \<open>-EIO\<close>.
\<close>

theorem C4_no_validation:
  assumes "0 < avail s" and "sysfs_create_dir s nm = 0"
  shows "(\<exists>s' b. btrfs_kobject_create nm kt None s = Inr (Some (brk s), s') \<and>
            mem s' (brk s) = Some b \<and>
            ktype (kobj b) = Some (Param_ktype (next_frame s)) \<and> state_in_sysfs (kobj b)) \<and>
     BTRFS_ATTR n m sh st = \<lparr>attr = \<lparr>name = n, mode = m\<rparr>, attr_show = sh, attr_store = st\<rparr> \<and>
     btrfs_kobject_attr_store k (BTRFS_ATTR n m sh None) buf len w = (- EIO, w)"
proof -
  from create_root_published [OF assms, of kt]
  have "\<exists>s' b. btrfs_kobject_create nm kt None s = Inr (Some (brk s), s') \<and>
            mem s' (brk s) = Some b \<and>
            ktype (kobj b) = Some (Param_ktype (next_frame s)) \<and> state_in_sysfs (kobj b)"
    by auto
  then show ?thesis
    by (simp add: BTRFS_ATTR_def btrfs_kobject_attr_store_def)
qed

theorem C4_no_validation_witness:
  "0 < avail (boot_state 1 (\<lambda>n. 0)) \<and> sysfs_create_dir (boot_state 1 (\<lambda>n. 0)) ''twice'' = 0 \<and>
   \<not> distinct (map name [\<lparr>name = ''x'', mode = mode_0666\<rparr>, \<lparr>name = ''x'', mode = mode_0666\<rparr>]) \<and>
   (\<exists>s' b. btrfs_kobject_create ''twice''
        \<lparr>sysfs_ops = Btrfs_sysfs_ops, release = Some Btrfs_kobject_release,
         default_attrs = [\<lparr>name = ''x'', mode = mode_0666\<rparr>, \<lparr>name = ''x'', mode = mode_0666\<rparr>]\<rparr>
        None (boot_state 1 (\<lambda>n. 0)) = Inr (Some 1, s') \<and>
      mem s' 1 = Some b \<and> ktype (kobj b) = Some (Param_ktype 0) \<and> state_in_sysfs (kobj b)) \<and>
   btrfs_kobject_attr_store 1 (BTRFS_ATTR ''x'' mode_0666 None None) ''7'' 1 () = (- 5, ())"
  using C4_no_validation [of "boot_state 1 (\<lambda>n. 0)" "''twice''"
      "\<lparr>sysfs_ops = Btrfs_sysfs_ops, release = Some Btrfs_kobject_release,
         default_attrs = [\<lparr>name = ''x'', mode = mode_0666\<rparr>, \<lparr>name = ''x'', mode = mode_0666\<rparr>]\<rparr>"
      "''x''" mode_0666 None None 1 "''7''" 1 "()"]
  by (auto simp: boot_state_def EIO_def)

text \<open>
  C4 as stated says that a type with two attributes of one name, or with a
  writable attribute without \<open>store\<close>, is rejected before a node of it exists.
  A type whose two attributes are both \<open>x\<close>, mode 0666, no \<open>store\<close>, is accepted
  and a node of it is created.
\<close>

theorem C4_counterexample:
  "\<not> distinct (map name [ATTR_LIST (BTRFS_ATTR ''x'' mode_0666 None None :: unit btrfs_kobject_attr),
                         ATTR_LIST (BTRFS_ATTR ''x'' mode_0666 None None :: unit btrfs_kobject_attr)]) \<and>
   attr_store (BTRFS_ATTR ''x'' mode_0666 None None :: unit btrfs_kobject_attr) = None \<and>
   map_sum id fst
     (btrfs_kobject_create ''bad''
        \<lparr>sysfs_ops = Btrfs_sysfs_ops, release = Some Btrfs_kobject_release,
         default_attrs =
           [ATTR_LIST (BTRFS_ATTR ''x'' mode_0666 None None :: unit btrfs_kobject_attr),
            ATTR_LIST (BTRFS_ATTR ''x'' mode_0666 None None :: unit btrfs_kobject_attr)]\<rparr>
        None (boot_state 1 (\<lambda>n. 0))) = Inr (Some 1)"
  by (simp add: create_defs boot_state_def BTRFS_ATTR_def ATTR_LIST_def)

text \<open>
  C9. \<open>btrfs_create_device\<close> returns 0 whenever it returns, and calls no release.
  It returns for every valid kobject pointer (with \<open>btrfs_devices\<close> \<^verbatim>\<open>NULL\<close> or
  live); the node then holds its one reference whether or not the renderer
  published it, so a refused publication is reported as success and nothing is
  rolled back. The value \<open>-EINVAL\<close> of the label \<^verbatim>\<open>btrfs_device_error\<close> is never
  returned.
\<close>

theorem C9_create_device_returns_0:
  "(\<forall>r s'. btrfs_create_device k label s = Inr (r, s') \<longrightarrow> r = 0 \<and> released s' = released s) \<and>
   (\<forall>a b. k = Some a \<and> mem s a = Some b \<and> (\<forall>p. btrfs_devices s = Some p \<longrightarrow> mem s p \<noteq> None) \<longrightarrow>
      (\<exists>s' b'. btrfs_create_device k label s = Inr (0, s') \<and> mem s' a = Some b' \<and>
         kref (kobj b') = 1 \<and> state_in_sysfs (kobj b') = (sysfs_create_dir s label = 0)))"
proof -
  have ret: "r = 0 \<and> released s' = released s"
    if run: "btrfs_create_device k label s = Inr (r, s')" for r s'
  proof -
    from run obtain a ret where "k = Some a"
      and "kobject_init_and_add a (Static_ktype btrfs_ktype_device) (btrfs_devices s) label s = Inr (ret, s')"
      and "r = 0"
      by (auto simp: btrfs_create_device_def split: option.splits sum.splits)
    then show ?thesis
      by (simp add: kiaa_fields(8))
  qed
  have total: "\<exists>s' b'. btrfs_create_device k label s = Inr (0, s') \<and> mem s' a = Some b' \<and>
         kref (kobj b') = 1 \<and> state_in_sysfs (kobj b') = (sysfs_create_dir s label = 0)"
    if h: "k = Some a \<and> mem s a = Some b \<and>
      (\<forall>p. btrfs_devices s = Some p \<longrightarrow> mem s p \<noteq> None)" for a b
  proof -
    from h have "\<not> (\<exists>f. kobject_init_and_add a (Static_ktype btrfs_ktype_device) (btrfs_devices s) label s = Inl f)"
      by (auto simp: kiaa_fault)
    then obtain ret s' where
      run: "kobject_init_and_add a (Static_ktype btrfs_ktype_device) (btrfs_devices s) label s = Inr (ret, s')"
      by (cases "kobject_init_and_add a (Static_ktype btrfs_ktype_device) (btrfs_devices s) label s") auto
    from kiaa_self [OF run] kiaa_fields(1) [OF run] h run
    show ?thesis
      by (auto simp: btrfs_create_device_def)
  qed
  from ret total show ?thesis by blast
qed

theorem C9_create_device_returns_0_witness:
  "btrfs_create_device (Some 7) ''sda''
     ((boot_state 0 (\<lambda>n. - 17))\<lparr>mem := [7 \<mapsto> zeroed]\<rparr>) =
   Inr (0, (boot_state 0 (\<lambda>n. - 17))
     \<lparr>mem := [7 \<mapsto> \<lparr>kobj = \<lparr>kobj_name = ''sda'', kref = 1, ktype = Some (Static_ktype btrfs_ktype_device),
                              parent = None, children = [], kobj_kset = False,
                              state_in_sysfs = False\<rparr>,
                     ptr = None\<rparr>]\<rparr>)"
proof -
  have run: "btrfs_create_device (Some 7) ''sda''
     ((boot_state 0 (\<lambda>n. - 17))\<lparr>mem := [7 \<mapsto> zeroed]\<rparr>) =
   Inr (0, (boot_state 0 (\<lambda>n. - 17))
     \<lparr>mem := [7 \<mapsto> \<lparr>kobj = \<lparr>kobj_name = ''sda'', kref = 1, ktype = Some (Static_ktype btrfs_ktype_device),
                              parent = None, children = [], kobj_kset = False,
                              state_in_sysfs = False\<rparr>,
                     ptr = None\<rparr>]\<rparr>)"
    by (simp add: btrfs_create_device_def create_defs boot_state_def)
  from C9_create_device_returns_0 [of "Some 7" "''sda''"
      "(boot_state 0 (\<lambda>n. - 17))\<lparr>mem := [7 \<mapsto> zeroed]\<rparr>"] run
  show ?thesis by simp
qed

section \<open>Reference counts\<close>

lemma create_success_dangling:
  "btrfs_kobject_create nm kt par s = Inr (Some a, s') \<Longrightarrow>
   \<exists>b. mem s' a = Some b \<and> kref (kobj b) = 1 \<and>
       ktype (kobj b) = Some (Param_ktype (next_frame s)) \<and> frames s' (next_frame s) = None"
  by (auto simp: create_defs split: if_splits option.splits sum.splits prod.splits)

text \<open>
  Handle operations on a node whose type pointer dangles: the count moves up
  and down, release is never called, and the drop that would bring the count
  to zero is a fault.
\<close>

lemma run_kops_dangling:
  assumes "mem s a = Some b" and "kref (kobj b) = n" and "0 < n"
    and "ktype (kobj b) = Some (Param_ktype fid)" and "frames s fid = None"
  shows "case run_kops a ops s of
      Inr s' \<Rightarrow>
        released s' = released s \<and>
        (\<exists>b'. mem s' a = Some b' \<and> 0 < kref (kobj b') \<and>
           kref (kobj b') + count_list ops Drop = n + count_list ops Acquire)
    | Inl e \<Rightarrow>
        e = Invalid_pointer \<and>
        (\<exists>k\<le>length ops. count_list (take k ops) Drop = n + count_list (take k ops) Acquire)"
  using assms
proof (induction ops arbitrary: s b n)
  case Nil
  then show ?case by simp
next
  case (Cons x xs)
  show ?case
  proof (cases x)
    case Acquire
    define s1 where "s1 = upd_kobj a (\<lambda>k. k\<lparr>kref := Suc (kref k)\<rparr>) s"
    have step: "run_kops a (x # xs) s = run_kops a xs s1"
      using Cons.prems(1) by (simp add: Acquire s1_def)
    have live: "mem s1 a = Some (b\<lparr>kobj := (kobj b)\<lparr>kref := Suc (kref (kobj b))\<rparr>\<rparr>)"
      using Cons.prems(1) by (simp add: s1_def)
    have same: "released s1 = released s" "frames s1 fid = None"
      using Cons.prems(5) by (simp_all add: s1_def)
    from Cons.IH [OF live, of "Suc n"] Cons.prems same
    have ih: "case run_kops a xs s1 of
      Inr s' \<Rightarrow>
        released s' = released s1 \<and>
        (\<exists>b'. mem s' a = Some b' \<and> 0 < kref (kobj b') \<and>
           kref (kobj b') + count_list xs Drop = Suc n + count_list xs Acquire)
    | Inl e \<Rightarrow>
        e = Invalid_pointer \<and>
        (\<exists>k\<le>length xs. count_list (take k xs) Drop = Suc n + count_list (take k xs) Acquire)"
      by simp
    show ?thesis
    proof (cases "run_kops a xs s1")
      case (Inr s')
      with ih step same Acquire show ?thesis by simp
    next
      case (Inl e)
      with ih obtain k where "e = Invalid_pointer" "k \<le> length xs"
        "count_list (take k xs) Drop = Suc n + count_list (take k xs) Acquire" by auto
      then have "Suc k \<le> length (x # xs) \<and>
        count_list (take (Suc k) (x # xs)) Drop = n + count_list (take (Suc k) (x # xs)) Acquire"
        by (simp add: Acquire)
      then have "\<exists>k\<le>length (x # xs).
        count_list (take k (x # xs)) Drop = n + count_list (take k (x # xs)) Acquire"
        by (rule exI [of _ "Suc k"])
      with Inl step \<open>e = Invalid_pointer\<close> show ?thesis by simp
    qed
  next
    case Drop
    show ?thesis
    proof (cases "n = 1")
      case True
      have fault: "run_kops a (x # xs) s = Inl Invalid_pointer"
        using Cons.prems(1,2,4,5) True by (simp add: Drop btrfs_kobject_destroy_def)
      have "Suc 0 \<le> length (x # xs) \<and>
        count_list (take (Suc 0) (x # xs)) Drop = n + count_list (take (Suc 0) (x # xs)) Acquire"
        using True Drop by simp
      then have "\<exists>k\<le>length (x # xs).
        count_list (take k (x # xs)) Drop = n + count_list (take k (x # xs)) Acquire"
        by (rule exI [of _ "Suc 0"])
      with fault show ?thesis by simp
    next
      case False
      with Cons.prems(3) have big: "1 < n" by simp
      define s1 where "s1 = upd_kobj a (\<lambda>k. k\<lparr>kref := kref k - 1\<rparr>) s"
      have step: "run_kops a (x # xs) s = run_kops a xs s1"
        using Cons.prems(1,2) big by (simp add: Drop s1_def btrfs_kobject_destroy_def)
      have live: "mem s1 a = Some (b\<lparr>kobj := (kobj b)\<lparr>kref := kref (kobj b) - 1\<rparr>\<rparr>)"
        using Cons.prems(1) by (simp add: s1_def)
      have same: "released s1 = released s" "frames s1 fid = None"
        using Cons.prems(5) by (simp_all add: s1_def)
      from Cons.IH [OF live, of "n - 1"] Cons.prems big same
      have ih: "case run_kops a xs s1 of
        Inr s' \<Rightarrow>
          released s' = released s1 \<and>
          (\<exists>b'. mem s' a = Some b' \<and> 0 < kref (kobj b') \<and>
             kref (kobj b') + count_list xs Drop = n - 1 + count_list xs Acquire)
      | Inl e \<Rightarrow>
          e = Invalid_pointer \<and>
          (\<exists>k\<le>length xs. count_list (take k xs) Drop = n - 1 + count_list (take k xs) Acquire)"
        by simp
      have arith: "(Suc i = n + j) = (i = n - 1 + j)" for i j
        using big by arith
      show ?thesis
      proof (cases "run_kops a xs s1")
        case (Inr s')
        with ih step same Drop big show ?thesis by (auto simp: arith)
      next
        case (Inl e)
        with ih obtain k where "e = Invalid_pointer" "k \<le> length xs"
          "count_list (take k xs) Drop = n - 1 + count_list (take k xs) Acquire" by auto
        then have "Suc k \<le> length (x # xs) \<and>
          count_list (take (Suc k) (x # xs)) Drop = n + count_list (take (Suc k) (x # xs)) Acquire"
          using big by (simp add: Drop)
        then have "\<exists>k\<le>length (x # xs).
          count_list (take k (x # xs)) Drop = n + count_list (take k (x # xs)) Acquire"
          by (rule exI [of _ "Suc k"])
        with Inl step \<open>e = Invalid_pointer\<close> show ?thesis by simp
      qed
    qed
  qed
qed

text \<open>
  C5, where the code departs from it. The node that \<open>btrfs_kobject_create\<close>
  returns holds the address of the call's \<^verbatim>\<open>ktype\<close> parameter, which is gone.
  Dropping the creator's reference is therefore a fault, and so is, in any
  sequence of acquisitions and drops on the node, the drop that brings the
  count to zero; in a sequence that runs through, release has not been called
  and the node is still there with a positive count. Release is never called
  on such a node.
\<close>

theorem C5_release_reads_dangling_type:
  assumes "btrfs_kobject_create nm kt par s0 = Inr (Some a, s)"
  shows "btrfs_kobject_destroy (Some a) s = Inl Invalid_pointer \<and>
    (case run_kops a ops s of
      Inr s' \<Rightarrow>
        released s' = released s \<and>
        (\<exists>b'. mem s' a = Some b' \<and> 0 < kref (kobj b') \<and>
           kref (kobj b') + count_list ops Drop = Suc (count_list ops Acquire))
    | Inl e \<Rightarrow>
        e = Invalid_pointer \<and>
        (\<exists>k\<le>length ops.
           count_list (take k ops) Drop = Suc (count_list (take k ops) Acquire)))"
proof -
  from create_success_dangling [OF assms]
  obtain b where b: "mem s a = Some b" "kref (kobj b) = 1"
    "ktype (kobj b) = Some (Param_ktype (next_frame s0))" "frames s (next_frame s0) = None"
    by blast
  then have "btrfs_kobject_destroy (Some a) s = Inl Invalid_pointer"
    by (simp add: btrfs_kobject_destroy_def)
  moreover from run_kops_dangling [OF b(1) b(2) _ b(3) b(4), of ops]
  have "case run_kops a ops s of
      Inr s' \<Rightarrow>
        released s' = released s \<and>
        (\<exists>b'. mem s' a = Some b' \<and> 0 < kref (kobj b') \<and>
           kref (kobj b') + count_list ops Drop = Suc (count_list ops Acquire))
    | Inl e \<Rightarrow>
        e = Invalid_pointer \<and>
        (\<exists>k\<le>length ops.
           count_list (take k ops) Drop = Suc (count_list (take k ops) Acquire))"
    by (cases "run_kops a ops s") simp_all
  ultimately show ?thesis by simp
qed

theorem C5_release_reads_dangling_type_witness:
  "\<exists>s. btrfs_kobject_create ''info'' btrfs_ktype_info None (boot_state 1 (\<lambda>n. 0)) =
         Inr (Some 1, s) \<and>
       btrfs_kobject_destroy (Some 1) s = Inl Invalid_pointer \<and>
       run_kops 1 [Acquire, Drop, Drop] s = Inl Invalid_pointer \<and>
       map_sum id released (run_kops 1 [Acquire, Drop] s) = Inr []"
proof -
  define s1 where "s1 = (boot_state 1 (\<lambda>n. 0))
       \<lparr>mem := [1 \<mapsto> \<lparr>kobj = \<lparr>kobj_name = ''info'', kref = 1,
                                ktype = Some (Param_ktype 0), parent = None, children = [],
                                kobj_kset = False, state_in_sysfs = True\<rparr>,
                       ptr = None\<rparr>],
        brk := 2, avail := 0, next_frame := 1\<rparr>"
  have run: "btrfs_kobject_create ''info'' btrfs_ktype_info None (boot_state 1 (\<lambda>n. 0)) =
      Inr (Some 1, s1)"
    by (simp add: create_defs boot_state_def s1_def)
  have ops: "run_kops 1 [Acquire, Drop, Drop] s1 = Inl Invalid_pointer"
    "map_sum id released (run_kops 1 [Acquire, Drop] s1) = Inr []"
    by (simp_all add: s1_def boot_state_def btrfs_kobject_destroy_def upd_kobj_def)
  from C5_release_reads_dangling_type [OF run, of "[Acquire, Drop, Drop]"]
  have "btrfs_kobject_destroy (Some 1) s1 = Inl Invalid_pointer" by blast
  with run ops show ?thesis by blast
qed



section \<open>Bootstrap\<close>

lemmas init_defs = btrfs_init_sysfs_def kset_create_and_add_def btrfs_static_init_sysfs_def
  btrfs_info_error_def btrfs_health_error_def btrfs_devices_error_def btrfs_kobject_destroy_def
  btrfs_ktype_devices_def btrfs_ktype_health_def btrfs_ktype_info_def EINVAL_def

text \<open>
  C1, where the code departs from it. Let \<open>devices\<close> be created. When \<open>health\<close>
  then fails, \<open>btrfs_static_init_sysfs\<close> returns \<open>-EINVAL\<close> with \<open>devices\<close> still
  there: published, reference count 1, listed by the kset, not released. The
  label \<^verbatim>\<open>btrfs_health_error\<close> destroys \<open>btrfs_health\<close>, which is \<^verbatim>\<open>NULL\<close> at that
  point, and no label destroys \<open>btrfs_devices\<close>. When \<open>health\<close> is created and
  \<open>info\<close> fails, the unwinding destroys \<open>health\<close>, whose type pointer dangles:
  a fault.
\<close>

theorem C1_unwind_leaves_devices:
  assumes "0 < avail s" and "sysfs_create_dir s ''devices'' = 0"
  shows "(avail s = 1 \<or> sysfs_create_dir s ''health'' \<noteq> 0 \<longrightarrow>
            (\<exists>s' b. btrfs_static_init_sysfs s = Inr (- EINVAL, s') \<and>
               btrfs_devices s' = Some (brk s) \<and> btrfs_health s' = None \<and>
               mem s' (brk s) = Some b \<and> kref (kobj b) = 1 \<and> state_in_sysfs (kobj b) \<and>
               count_list (released s') (brk s) = count_list (released s) (brk s) \<and>
               (\<forall>ks. btrfs_kset s' = Some ks \<longrightarrow> brk s \<in> set (kset_list ks)))) \<and>
         (1 < avail s \<and> sysfs_create_dir s ''health'' = 0 \<and>
          (avail s = 2 \<or> sysfs_create_dir s ''info'' \<noteq> 0) \<longrightarrow>
            btrfs_static_init_sysfs s = Inl Invalid_pointer)"
proof -
  have first: "\<not> (avail s = 0 \<or> sysfs_create_dir s ''devices'' \<noteq> 0)"
    using assms by simp
  show ?thesis
  proof (intro conjI impI)
    assume "avail s = 1 \<or> sysfs_create_dir s ''health'' \<noteq> 0"
    with static_init_outcome [of s] first
    show "\<exists>s' b. btrfs_static_init_sysfs s = Inr (- EINVAL, s') \<and>
               btrfs_devices s' = Some (brk s) \<and> btrfs_health s' = None \<and>
               mem s' (brk s) = Some b \<and> kref (kobj b) = 1 \<and> state_in_sysfs (kobj b) \<and>
               count_list (released s') (brk s) = count_list (released s) (brk s) \<and>
               (\<forall>ks. btrfs_kset s' = Some ks \<longrightarrow> brk s \<in> set (kset_list ks))"
      by (simp only: if_False if_True) blast
  next
    assume "1 < avail s \<and> sysfs_create_dir s ''health'' = 0 \<and>
          (avail s = 2 \<or> sysfs_create_dir s ''info'' \<noteq> 0)"
    then have "\<not> (avail s = 1 \<or> sysfs_create_dir s ''health'' \<noteq> 0)"
      and "avail s = 2 \<or> sysfs_create_dir s ''info'' \<noteq> 0" by auto
    with static_init_outcome [of s] first
    show "btrfs_static_init_sysfs s = Inl Invalid_pointer"
      by (simp only: if_False if_True)
  qed
qed

theorem C1_unwind_leaves_devices_witness:
  "map_sum id
     (\<lambda>rs. (fst rs, btrfs_devices (snd rs), btrfs_health (snd rs),
            map_option (\<lambda>b. (kref (kobj b), state_in_sysfs (kobj b))) (mem (snd rs) 1),
            map_option kset_list (btrfs_kset (snd rs)), released (snd rs)))
     (btrfs_static_init_sysfs
        ((boot_state 3 (\<lambda>n. if n = ''health'' then - 17 else 0))
           \<lparr>btrfs_kset := Some \<lparr>kset_name = ''btrfs'', kset_list = []\<rparr>\<rparr>)) =
   Inr (- 22, Some 1, None, Some (1, True), Some [1], [2]) \<and>
   btrfs_static_init_sysfs
     ((boot_state 3 (\<lambda>n. if n = ''info'' then - 17 else 0))
        \<lparr>btrfs_kset := Some \<lparr>kset_name = ''btrfs'', kset_list = []\<rparr>\<rparr>) =
   Inl Invalid_pointer"
  using C1_unwind_leaves_devices
    [of "(boot_state 3 (\<lambda>n. if n = ''health'' then - 17 else 0))
           \<lparr>btrfs_kset := Some \<lparr>kset_name = ''btrfs'', kset_list = []\<rparr>\<rparr>"]
    C1_unwind_leaves_devices
    [of "(boot_state 3 (\<lambda>n. if n = ''info'' then - 17 else 0))
           \<lparr>btrfs_kset := Some \<lparr>kset_name = ''btrfs'', kset_list = []\<rparr>\<rparr>"]
  by (simp add: init_defs create_defs boot_state_def)

text \<open>
  C10. Let the renderer accept the kset \<open>btrfs\<close>. When \<open>devices\<close> or \<open>health\<close>
  fails, \<open>btrfs_init_sysfs\<close> returns \<open>-EINVAL\<close> and the kset is still registered;
  the kset is registered after every return, with 0 or with \<open>-EINVAL\<close>: no
  path of the bootstrap calls \<open>kset_unregister\<close>. The only case without a
  return is the failure of \<open>info\<close> after the other two succeeded, where the
  unwinding faults.
\<close>

theorem C10_kset_left_registered:
  assumes "sysfs_create_dir s ''btrfs'' = 0"
  shows "(avail s = 0 \<or> sysfs_create_dir s ''devices'' \<noteq> 0 \<or>
          avail s = 1 \<or> sysfs_create_dir s ''health'' \<noteq> 0 \<longrightarrow>
            (\<exists>s'. btrfs_init_sysfs s = Inr (- EINVAL, s') \<and>
               map_option kset_name (btrfs_kset s') = Some ''btrfs'')) \<and>
         (\<forall>r s'. btrfs_init_sysfs s = Inr (r, s') \<longrightarrow>
            (r = 0 \<or> r = - EINVAL) \<and> map_option kset_name (btrfs_kset s') = Some ''btrfs'') \<and>
         ((\<exists>f. btrfs_init_sysfs s = Inl f) \<longleftrightarrow>
            1 < avail s \<and> sysfs_create_dir s ''devices'' = 0 \<and>
            sysfs_create_dir s ''health'' = 0 \<and>
            (avail s = 2 \<or> sysfs_create_dir s ''info'' \<noteq> 0))"
proof -
  define t where "t = s\<lparr>btrfs_kset := Some \<lparr>kset_name = ''btrfs'', kset_list = []\<rparr>\<rparr>"
  have init: "btrfs_init_sysfs s = btrfs_static_init_sysfs t"
    using assms by (simp add: btrfs_init_sysfs_def kset_create_and_add_def t_def Let_def)
  have t: "avail t = avail s" "sysfs_create_dir t = sysfs_create_dir s"
    "map_option kset_name (btrfs_kset t) = Some ''btrfs''"
    by (simp_all add: t_def)
  from static_init_outcome [of t] show ?thesis
    unfolding init t by (auto split: if_splits)
qed

theorem C10_kset_left_registered_witness:
  "sysfs_create_dir (boot_state 3 (\<lambda>n. if n = ''health'' then - 17 else 0)) ''btrfs'' = 0 \<and>
   map_sum id (\<lambda>rs. (fst rs, btrfs_kset (snd rs)))
     (btrfs_init_sysfs (boot_state 3 (\<lambda>n. if n = ''health'' then - 17 else 0))) =
   Inr (- 22, Some \<lparr>kset_name = ''btrfs'', kset_list = [1]\<rparr>)"
  using C10_kset_left_registered [of "boot_state 3 (\<lambda>n. if n = ''health'' then - 17 else 0)"]
  by (simp add: init_defs create_defs boot_state_def)

end
